theory Spec2Isabelle
  imports Main
begin

section \<open>Data model of package exporter\<close>

text \<open>
  The embedding follows \<^verbatim>\<open>exporter/exporter.go\<close>. Go's \<^verbatim>\<open>int\<close> fields are only
  compared, never added to, so they are HOL integers. A Go pointer that may be nil is an
  \<open>option\<close>. The two mutexes of \<^verbatim>\<open>Exporter\<close> carry no data: the model runs one call at a
  time and leaves them out.

  Everything the package calls but does not define (the MongoDB driver, the helpers
  \<^verbatim>\<open>getNodeType\<close>, \<^verbatim>\<open>newTopologyInfo\<close>, \<^verbatim>\<open>nonSystemCollectionsCount\<close>, and the
  Prometheus HTTP handler) is a field of the record \<open>world\<close>: the answers the outside
  gives during one call. Every call to the outside and every logged error is also written
  to a list of events, so that "no connect is attempted" is a statement about that list.
\<close>

type_synonym error = string

datatype mongoClient = MongoClient nat

datatype logrusLogger = LogrusNew | LogrusLogger nat

datatype topologyInfo = TopologyInfo "(string \<times> string) list"

text \<open>
  The type \<^verbatim>\<open>mongoDBNodeType\<close> is declared outside this file; \<^verbatim>\<open>makeRegistry\<close> only
  compares a value of it with the constant \<^verbatim>\<open>typeMongos\<close>.
\<close>

datatype mongoDBNodeType = typeMongos | typeOther string

record Opts =
  CollStatsNamespaces :: "string list"
  CollStatsLimit :: int
  CompatibleMode :: bool
  DirectConnect :: bool
  DisableDefaultRegistry :: bool
  DiscoveringMode :: bool
  GlobalConnPool :: bool
  CollectAll :: bool
  EnableDBStats :: bool
  EnableDiagnosticData :: bool
  EnableReplicasetStatus :: bool
  EnableTopMetrics :: bool
  EnableIndexStats :: bool
  EnableCollStats :: bool
  IndexStatsCollections :: "string list"
  Logger :: "logrusLogger option"
  Path :: string
  URI :: string
  WebListenAddress :: string

text \<open>
  \<^verbatim>\<open>Exporter.opts\<close> is a pointer to the caller's \<^verbatim>\<open>Opts\<close>; the model keeps the record
  itself in the exporter, so a write through the pointer is an update of this field.
\<close>

record Exporter =
  path :: string
  client :: "mongoClient option"
  logger :: "logrusLogger option"
  opts :: Opts
  webListenAddress :: string
  totalCollectionsCount :: int

text \<open>
  The collectors, with the fields \<^verbatim>\<open>makeRegistry\<close> gives them (the request context is
  left out). A registry is the list of the collectors registered, in order.
\<close>

datatype collector =
    generalCollector "mongoClient option" "logrusLogger option"
  | collstatsCollector mongoClient "string list" bool bool "logrusLogger option" "topologyInfo option"
  | indexstatsCollector mongoClient "string list" bool "logrusLogger option" "topologyInfo option"
  | diagnosticDataCollector mongoClient bool "logrusLogger option" "topologyInfo option"
  | dbstatsCollector mongoClient bool "logrusLogger option" "topologyInfo option"
  | topCollector mongoClient bool "logrusLogger option" "topologyInfo option"
  | replSetGetStatusCollector mongoClient bool "logrusLogger option" "topologyInfo option"

datatype collectorKind =
  General | CollStats | IndexStats | DiagnosticData | DBStats | Top | ReplSetGetStatus

fun kindOf :: "collector \<Rightarrow> collectorKind" where
  "kindOf (generalCollector _ _) = General"
| "kindOf (collstatsCollector _ _ _ _ _ _) = CollStats"
| "kindOf (indexstatsCollector _ _ _ _ _) = IndexStats"
| "kindOf (diagnosticDataCollector _ _ _ _) = DiagnosticData"
| "kindOf (dbstatsCollector _ _ _ _) = DBStats"
| "kindOf (topCollector _ _ _ _) = Top"
| "kindOf (replSetGetStatusCollector _ _ _ _) = ReplSetGetStatus"

type_synonym registry = "collector list"

definition kinds :: "registry \<Rightarrow> collectorKind list" where
  "kinds r = map kindOf r"

datatype gatherer = DefaultGatherer | RegistryGatherer registry

text \<open>
  What a handler can do to an \<^verbatim>\<open>http.ResponseWriter\<close>: set the content type header,
  write the status line, write body bytes.
\<close>

datatype writerOp = SetContentType string | WriteHeader nat | Write string

datatype event =
    CallConnect string bool
  | CallPing mongoClient
  | CallDisconnect mongoClient
  | CallCount mongoClient
  | CallTopologyInfo mongoClient
  | CallNodeType mongoClient
  | LogErrorf string

record world =
  mongo_Connect :: "string \<Rightarrow> bool \<Rightarrow> error + mongoClient"
  client_Ping :: "mongoClient \<Rightarrow> error option"
  client_Disconnect :: "mongoClient \<Rightarrow> error option"
  nonSystemCollectionsCount :: "mongoClient \<Rightarrow> error + int"
  newTopologyInfo :: "mongoClient \<Rightarrow> topologyInfo option \<times> error option"
  getNodeType :: "mongoClient \<Rightarrow> mongoDBNodeType \<times> error option"
  promhttp_Handler :: "gatherer list \<Rightarrow> writerOp list"

section \<open>The response writer\<close>

text \<open>
  \<^verbatim>\<open>net/http\<close>: the first status written is the one sent, together with the headers set
  by then; a body write before any status sends 200 first; body writes append. Where no
  content type header was set by then, \<^verbatim>\<open>net/http\<close> derives one from the first bytes of the
  body; the model does not compute it, and \<open>sentContentType\<close> is \<open>None\<close> in that case.
\<close>

record responseWriter =
  headerContentType :: "string option"
  status :: "nat option"
  sentContentType :: "string option"
  body :: string

definition newResponseWriter :: responseWriter where
  "newResponseWriter =
     \<lparr>headerContentType = None, status = None, sentContentType = None, body = []\<rparr>"

definition writeHeader :: "responseWriter \<Rightarrow> nat \<Rightarrow> responseWriter" where
  "writeHeader w code =
     (if status w = None
      then w\<lparr>status := Some code, sentContentType := headerContentType w\<rparr>
      else w)"

definition writeBody :: "responseWriter \<Rightarrow> string \<Rightarrow> responseWriter" where
  "writeBody w bs =
     (let w' = (if status w = None then writeHeader w 200 else w)
      in w'\<lparr>body := body w' @ bs\<rparr>)"

fun applyOp :: "responseWriter \<Rightarrow> writerOp \<Rightarrow> responseWriter" where
  "applyOp w (SetContentType t) = w\<lparr>headerContentType := Some t\<rparr>"
| "applyOp w (WriteHeader code) = writeHeader w code"
| "applyOp w (Write bs) = writeBody w bs"

definition serveHTTP :: "writerOp list \<Rightarrow> responseWriter \<Rightarrow> responseWriter" where
  "serveHTTP ops w = foldl applyOp w ops"

text \<open>
  \<^verbatim>\<open>http.Error(w, msg, code)\<close>: plain-text content type, the status, then the message and
  a newline.
\<close>

definition http_Error :: "responseWriter \<Rightarrow> string \<Rightarrow> nat \<Rightarrow> responseWriter" where
  "http_Error w msg code =
     writeBody (writeHeader (w\<lparr>headerContentType := Some ''text/plain; charset=utf-8''\<rparr>) code)
       (msg @ [CHR 0x0A])"

section \<open>The exporter\<close>

text \<open>\<^verbatim>\<open>new(Opts)\<close>: every field at its zero value.\<close>

definition new_Opts :: Opts where
  "new_Opts =
     \<lparr>CollStatsNamespaces = [], CollStatsLimit = 0, CompatibleMode = False,
      DirectConnect = False, DisableDefaultRegistry = False, DiscoveringMode = False,
      GlobalConnPool = False, CollectAll = False, EnableDBStats = False,
      EnableDiagnosticData = False, EnableReplicasetStatus = False,
      EnableTopMetrics = False, EnableIndexStats = False, EnableCollStats = False,
      IndexStatsCollections = [], Logger = None, Path = [], URI = [],
      WebListenAddress = []\<rparr>"

text \<open>
  \<^verbatim>\<open>New\<close>. The \<^verbatim>\<open>go func() { ... }()\<close> statement starts \<open>New_goroutine\<close> below and
  does not wait for it; \<open>New\<close> itself takes no answer from the outside.
\<close>

definition New :: "Opts option \<Rightarrow> Exporter" where
  "New opts0 =
     (let opts1 = (case opts0 of None \<Rightarrow> new_Opts | Some o1 \<Rightarrow> o1);
          opts2 = (if Logger opts1 = None then opts1\<lparr>Logger := Some LogrusNew\<rparr> else opts1)
      in \<lparr>path = Path opts2, client = None, logger = Logger opts2, opts = opts2,
          webListenAddress = WebListenAddress opts2, totalCollectionsCount = - 1\<rparr>)"

definition getTotalCollectionsCount :: "Exporter \<Rightarrow> int" where
  "getTotalCollectionsCount e = totalCollectionsCount e"

text \<open>\<^verbatim>\<open>connect\<close>: \<^verbatim>\<open>mongo.Connect\<close>, then \<^verbatim>\<open>Ping\<close>; a failed ping disconnects.\<close>

definition connect ::
  "world \<Rightarrow> string \<Rightarrow> bool \<Rightarrow> (error + mongoClient) \<times> event list" where
  "connect w dsn directConnect =
     (case mongo_Connect w dsn directConnect of
        Inl err \<Rightarrow> (Inl (''invalid MongoDB options: '' @ err), [CallConnect dsn directConnect])
      | Inr c \<Rightarrow>
          (case client_Ping w c of
             Some err \<Rightarrow>
               (Inl (''cannot connect to MongoDB: '' @ err),
                [CallConnect dsn directConnect, CallPing c, CallDisconnect c])
           | None \<Rightarrow> (Inr c, [CallConnect dsn directConnect, CallPing c])))"

text \<open>\<^verbatim>\<open>getClient\<close>: the result, the exporter afterwards, the events.\<close>

definition getClient ::
  "world \<Rightarrow> Exporter \<Rightarrow> (error + mongoClient) \<times> Exporter \<times> event list" where
  "getClient w e =
     (if GlobalConnPool (opts e) then
        (case client e of
           Some c \<Rightarrow> (Inr c, e, [])
         | None \<Rightarrow>
             (case connect w (URI (opts e)) (DirectConnect (opts e)) of
                (Inl err, evs) \<Rightarrow> (Inl err, e, evs)
              | (Inr c, evs) \<Rightarrow> (Inr c, e\<lparr>client := Some c\<rparr>, evs)))
      else
        (case connect w (URI (opts e)) (DirectConnect (opts e)) of
           (Inl err, evs) \<Rightarrow> (Inl err, e, evs)
         | (Inr c, evs) \<Rightarrow> (Inr c, e, evs)))"

text \<open>The body of the goroutine started by \<^verbatim>\<open>New\<close>.\<close>

definition New_goroutine :: "world \<Rightarrow> Exporter \<Rightarrow> Exporter \<times> event list" where
  "New_goroutine w e =
     (case getClient w e of
        (Inl err, e', evs) \<Rightarrow> (e', evs @ [LogErrorf (''Cannot connect to MongoDB: '' @ err)])
      | (Inr c, e', evs) \<Rightarrow> (e', evs))"

text \<open>Lines 140 to 144 of \<^verbatim>\<open>makeRegistry\<close>: the limit gate.\<close>

definition limitsOk :: "Exporter \<Rightarrow> bool" where
  "limitsOk e =
     (CollStatsLimit (opts e) = 0 \<or>
      (getTotalCollectionsCount e > 0 \<and> getTotalCollectionsCount e < CollStatsLimit (opts e)))"

text \<open>Lines 146 to 154: what \<^verbatim>\<open>CollectAll\<close> writes into the options.\<close>

definition collectAll :: "Opts \<Rightarrow> Opts" where
  "collectAll o1 =
     (if CollectAll o1 then
        (if length (CollStatsNamespaces o1) = 0 then o1\<lparr>DiscoveringMode := True\<rparr> else o1)
          \<lparr>EnableDiagnosticData := True, EnableDBStats := True,
           EnableTopMetrics := True, EnableReplicasetStatus := True\<rparr>
      else o1)"

text \<open>Lines 156 to 226: the collectors registered after the general one.\<close>

definition gatedCollectors ::
  "Opts \<Rightarrow> bool \<Rightarrow> mongoDBNodeType \<Rightarrow> mongoClient \<Rightarrow> topologyInfo option \<Rightarrow> registry" where
  "gatedCollectors o1 limOk nodeType c ti =
     (if (length (CollStatsNamespaces o1) > 0 \<or> DiscoveringMode o1) \<and> EnableCollStats o1 \<and> limOk
      then [collstatsCollector c (CollStatsNamespaces o1) (CompatibleMode o1)
              (DiscoveringMode o1) (Logger o1) ti]
      else []) @
     (if (length (IndexStatsCollections o1) > 0 \<or> DiscoveringMode o1) \<and> EnableIndexStats o1 \<and> limOk
      then [indexstatsCollector c (IndexStatsCollections o1) (DiscoveringMode o1) (Logger o1) ti]
      else []) @
     (if EnableDiagnosticData o1
      then [diagnosticDataCollector c (CompatibleMode o1) (Logger o1) ti] else []) @
     (if EnableDBStats o1
      then [dbstatsCollector c (CompatibleMode o1) (Logger o1) ti] else []) @
     (if EnableTopMetrics o1 \<and> nodeType \<noteq> typeMongos
      then [topCollector c (CompatibleMode o1) (Logger o1) ti] else []) @
     (if EnableReplicasetStatus o1 \<and> nodeType \<noteq> typeMongos
      then [replSetGetStatusCollector c (CompatibleMode o1) (Logger o1) ti] else [])"

text \<open>\<^verbatim>\<open>makeRegistry\<close>: the registry, the exporter afterwards, the events.\<close>

definition makeRegistry ::
  "world \<Rightarrow> Exporter \<Rightarrow> mongoClient option \<Rightarrow> topologyInfo option
     \<Rightarrow> registry \<times> Exporter \<times> event list" where
  "makeRegistry w e cl ti =
     (let gc = generalCollector cl (Logger (opts e)) in
      case cl of
        None \<Rightarrow> ([gc], e, [])
      | Some c \<Rightarrow>
          (case getNodeType w c of
             (nodeType, err) \<Rightarrow>
               (let evs = CallNodeType c #
                      (case err of
                         None \<Rightarrow> []
                       | Some msg \<Rightarrow>
                           [LogErrorf (''Cannot get node type to check if this is a mongos: '' @ msg)]);
                    limOk = limitsOk e;
                    e' = e\<lparr>opts := collectAll (opts e)\<rparr>
                in (gc # gatedCollectors (opts e') limOk nodeType c ti, e', evs))))"

text \<open>Lines 274 to 281 of the handler: fill the collection-count cache.\<close>

definition countStep :: "world \<Rightarrow> Exporter \<Rightarrow> mongoClient option \<Rightarrow> Exporter \<times> event list" where
  "countStep w e cl =
     (case cl of
        None \<Rightarrow> (e, [])
      | Some c \<Rightarrow>
          (if getTotalCollectionsCount e < 0 then
             (case nonSystemCollectionsCount w c of
                Inr count \<Rightarrow> (e\<lparr>totalCollectionsCount := count\<rparr>, [CallCount c])
              | Inl err \<Rightarrow> (e, [CallCount c]))
           else (e, [])))"

text \<open>Lines 296 to 307: the topology information, and the error response when it fails.\<close>

definition topologyStep ::
  "world \<Rightarrow> mongoClient option \<Rightarrow> responseWriter
     \<Rightarrow> topologyInfo option \<times> responseWriter \<times> event list" where
  "topologyStep w cl rw =
     (case cl of
        None \<Rightarrow> (None, rw, [])
      | Some c \<Rightarrow>
          (case newTopologyInfo w c of
             (ti, None) \<Rightarrow> (ti, rw, [CallTopologyInfo c])
           | (ti, Some err) \<Rightarrow>
               (ti,
                http_Error rw
                  (''An error has occurred while getting topology info:'' @
                     [CHR 0x0A, CHR 0x0A] @ err)
                  500,
                [CallTopologyInfo c, LogErrorf (''Cannot get topology info: '' @ err)])))"

text \<open>Lines 284 to 293: the deferred disconnect, run when the handler returns.\<close>

definition closeStep :: "world \<Rightarrow> bool \<Rightarrow> mongoClient option \<Rightarrow> event list" where
  "closeStep w globalConnPool cl =
     (if \<not> globalConnPool then
        (case cl of
           None \<Rightarrow> []
         | Some c \<Rightarrow>
             CallDisconnect c #
               (case client_Disconnect w c of
                  None \<Rightarrow> []
                | Some err \<Rightarrow> [LogErrorf (''Cannot disconnect client: '' @ err)]))
      else [])"

text \<open>
  The function returned by \<^verbatim>\<open>Handler\<close>, for one request: the exporter afterwards, the
  response writer afterwards, the events.
\<close>

definition Handler ::
  "world \<Rightarrow> Exporter \<Rightarrow> responseWriter \<Rightarrow> Exporter \<times> responseWriter \<times> event list" where
  "Handler w e rw =
     (case getClient w e of
        (res, e1, evs1) \<Rightarrow>
          (let cl = (case res of Inl err \<Rightarrow> None | Inr c \<Rightarrow> Some c);
               evs2 = (case res of
                         Inl err \<Rightarrow> [LogErrorf (''Cannot connect to MongoDB: '' @ err)]
                       | Inr c \<Rightarrow> [])
           in case countStep w e1 cl of
                (e2, evs3) \<Rightarrow>
                  (let globalConnPool = GlobalConnPool (opts e2) in
                   case topologyStep w cl rw of
                     (ti, rw1, evs4) \<Rightarrow>
                       (case makeRegistry w e2 cl ti of
                          (registry, e3, evs5) \<Rightarrow>
                            (let gatherers =
                                   (if \<not> DisableDefaultRegistry (opts e3)
                                    then [DefaultGatherer] else []) @
                                   [RegistryGatherer registry];
                                 rw2 = serveHTTP (promhttp_Handler w gatherers) rw1
                             in (e3, rw2,
                                 evs1 @ evs2 @ evs3 @ evs4 @ evs5 @
                                   closeStep w globalConnPool cl))))))"

text \<open>Requests served one after the other, each with its own answers from the outside.\<close>

fun serveAll :: "world list \<Rightarrow> Exporter \<Rightarrow> Exporter \<times> event list" where
  "serveAll [] e = (e, [])"
| "serveAll (w # ws) e =
     (case Handler w e newResponseWriter of
        (e', rw, evs) \<Rightarrow> (case serveAll ws e' of (e'', evs') \<Rightarrow> (e'', evs @ evs')))"

text \<open>
  Lines 274 to 281 once more, split where the handler takes and releases \<^verbatim>\<open>e.lock\<close>:
  \<^verbatim>\<open>getTotalCollectionsCount\<close> reads the cache under the lock and releases it; the count
  runs without the lock; the write takes the lock again. \<^verbatim>\<open>net/http\<close> runs the handler
  of each request in a goroutine of its own, so steps of other requests may fall between
  the steps of one. \<open>countStep\<close> above is the three steps of one request with nothing in
  between (lemma \<open>countStep_phases\<close>).
\<close>

datatype countPhase =
    BeforeRead
  | BeforeCount mongoClient
  | BeforeWrite "error + int"
  | Finished

fun countPhaseStep ::
  "world \<Rightarrow> mongoClient option \<Rightarrow> Exporter \<Rightarrow> countPhase
     \<Rightarrow> Exporter \<times> countPhase \<times> event list" where
  "countPhaseStep w cl e BeforeRead =
     (case cl of
        None \<Rightarrow> (e, Finished, [])
      | Some c \<Rightarrow>
          (if getTotalCollectionsCount e < 0 then (e, BeforeCount c, [])
           else (e, Finished, [])))"
| "countPhaseStep w cl e (BeforeCount c) =
     (e, BeforeWrite (nonSystemCollectionsCount w c), [CallCount c])"
| "countPhaseStep w cl e (BeforeWrite (Inr count)) =
     (e\<lparr>totalCollectionsCount := count\<rparr>, Finished, [])"
| "countPhaseStep w cl e (BeforeWrite (Inl err)) = (e, Finished, [])"
| "countPhaseStep w cl e Finished = (e, Finished, [])"

text \<open>
  Requests that overlap: each is the answers of the outside and the client it holds; the
  schedule names, step by step, the request that moves next.
\<close>

type_synonym countRequest = "world \<times> mongoClient option"

fun runSchedule ::
  "countRequest list \<Rightarrow> nat list \<Rightarrow> Exporter \<times> countPhase list \<times> event list
     \<Rightarrow> Exporter \<times> countPhase list \<times> event list" where
  "runSchedule rs [] st = st"
| "runSchedule rs (i # sched) (e, ps, evs) =
     (if i < length rs \<and> i < length ps then
        (case countPhaseStep (fst (rs ! i)) (snd (rs ! i)) e (ps ! i) of
           (e', p', evs') \<Rightarrow> runSchedule rs sched (e', ps[i := p'], evs @ evs'))
      else runSchedule rs sched (e, ps, evs))"

fun isCallCount :: "event \<Rightarrow> bool" where
  "isCallCount (CallCount c) = True"
| "isCallCount _ = False"

fun isCallConnect :: "event \<Rightarrow> bool" where
  "isCallConnect (CallConnect dsn d) = True"
| "isCallConnect _ = False"

definition countCalls :: "event list \<Rightarrow> nat" where
  "countCalls evs = length (filter isCallCount evs)"

definition connectCalls :: "event list \<Rightarrow> nat" where
  "connectCalls evs = length (filter isCallConnect evs)"

text \<open>The client a \<^verbatim>\<open>getClient\<close> result hands to the handler: nil on error.\<close>

definition clientOf :: "error + mongoClient \<Rightarrow> mongoClient option" where
  "clientOf res = (case res of Inl err \<Rightarrow> None | Inr c \<Rightarrow> Some c)"

section \<open>Example exporters and answers of the outside\<close>

text \<open>
  Concrete inputs, used where a statement is evaluated: a server that answers every call
  (\<open>liveWorld\<close>), one whose ping fails (\<open>downWorld\<close>), one without any user collection
  (\<open>emptyDbWorld\<close>), one with ten collections more (\<open>grownDbWorld\<close>), a router (\<open>mongosWorld\<close>), one whose node-type query fails and
  returns the zero value of the type (\<open>nodeTypeFailsWorld\<close>), one whose topology query
  fails (\<open>topologyFailsWorld\<close>); and exporters built by \<open>New\<close> from a few option sets.
\<close>

definition liveWorld :: world where
  "liveWorld =
     \<lparr>mongo_Connect = (\<lambda>dsn d. Inr (MongoClient 1)),
      client_Ping = (\<lambda>c. None),
      client_Disconnect = (\<lambda>c. None),
      nonSystemCollectionsCount = (\<lambda>c. Inr 50),
      newTopologyInfo = (\<lambda>c. (Some (TopologyInfo []), None)),
      getNodeType = (\<lambda>c. (typeOther ''mongod'', None)),
      promhttp_Handler = (\<lambda>gs. [SetContentType ''text/plain; version=0.0.4'', Write ''up 1''])\<rparr>"

definition downWorld :: world where
  "downWorld = liveWorld\<lparr>client_Ping := (\<lambda>c. Some ''server selection timeout'')\<rparr>"

definition emptyDbWorld :: world where
  "emptyDbWorld = liveWorld\<lparr>nonSystemCollectionsCount := (\<lambda>c. Inr 0)\<rparr>"

definition grownDbWorld :: world where
  "grownDbWorld = liveWorld\<lparr>nonSystemCollectionsCount := (\<lambda>c. Inr 60)\<rparr>"

definition mongosWorld :: world where
  "mongosWorld = liveWorld\<lparr>getNodeType := (\<lambda>c. (typeMongos, None))\<rparr>"

definition nodeTypeFailsWorld :: world where
  "nodeTypeFailsWorld = liveWorld\<lparr>getNodeType := (\<lambda>c. (typeOther [], Some ''connection reset''))\<rparr>"

definition topologyFailsWorld :: world where
  "topologyFailsWorld = liveWorld\<lparr>newTopologyInfo := (\<lambda>c. (None, Some ''not authorized''))\<rparr>"

definition limitedExporter :: Exporter where
  "limitedExporter =
     New (Some (new_Opts\<lparr>CollStatsLimit := 100, DiscoveringMode := True,
                           EnableCollStats := True, EnableIndexStats := True\<rparr>))"

definition collectAllExporter :: Exporter where
  "collectAllExporter = New (Some (new_Opts\<lparr>CollectAll := True\<rparr>))"

definition pooledExporter :: Exporter where
  "pooledExporter = New (Some (new_Opts\<lparr>GlobalConnPool := True\<rparr>))"

definition enabledExporter :: Exporter where
  "enabledExporter =
     New (Some (new_Opts\<lparr>EnableDBStats := True, EnableDiagnosticData := True,
                           EnableReplicasetStatus := True, EnableTopMetrics := True\<rparr>))"

section \<open>Facts about the single steps\<close>

lemma kinds_gatedCollectors:
  "kinds (gatedCollectors o1 limOk nodeType c ti) =
     (if (CollStatsNamespaces o1 \<noteq> [] \<or> DiscoveringMode o1) \<and> EnableCollStats o1 \<and> limOk
      then [CollStats] else []) @
     (if (IndexStatsCollections o1 \<noteq> [] \<or> DiscoveringMode o1) \<and> EnableIndexStats o1 \<and> limOk
      then [IndexStats] else []) @
     (if EnableDiagnosticData o1 then [DiagnosticData] else []) @
     (if EnableDBStats o1 then [DBStats] else []) @
     (if EnableTopMetrics o1 \<and> nodeType \<noteq> typeMongos then [Top] else []) @
     (if EnableReplicasetStatus o1 \<and> nodeType \<noteq> typeMongos then [ReplSetGetStatus] else [])"
  by (simp add: kinds_def gatedCollectors_def)

lemma makeRegistry_None:
  "makeRegistry w e None ti = ([generalCollector None (Logger (opts e))], e, [])"
  by (simp add: makeRegistry_def)

lemma makeRegistry_Some:
  "makeRegistry w e (Some c) ti =
     (generalCollector (Some c) (Logger (opts e)) #
        gatedCollectors (collectAll (opts e)) (limitsOk e) (fst (getNodeType w c)) c ti,
      e\<lparr>opts := collectAll (opts e)\<rparr>,
      CallNodeType c #
        (case snd (getNodeType w c) of
           None \<Rightarrow> []
         | Some msg \<Rightarrow>
             [LogErrorf (''Cannot get node type to check if this is a mongos: '' @ msg)]))"
  by (simp add: makeRegistry_def Let_def split: prod.splits)

lemma connect_events: "countCalls (snd (connect w dsn d)) = 0 \<and> connectCalls (snd (connect w dsn d)) = 1"
  by (simp add: connect_def countCalls_def connectCalls_def split: sum.splits option.splits)

lemma getClient_keeps:
  shows "opts (fst (snd (getClient w e))) = opts e"
    and "totalCollectionsCount (fst (snd (getClient w e))) = totalCollectionsCount e"
    and "path (fst (snd (getClient w e))) = path e"
    and "logger (fst (snd (getClient w e))) = logger e"
    and "webListenAddress (fst (snd (getClient w e))) = webListenAddress e"
  by (simp_all add: getClient_def split: sum.splits option.splits prod.splits)

lemma getClient_countCalls: "countCalls (snd (snd (getClient w e))) = 0"
  using connect_events[of w "URI (opts e)" "DirectConnect (opts e)"]
  by (auto simp add: getClient_def countCalls_def split: sum.splits option.splits prod.splits)

lemma countStep_keeps:
  shows "opts (fst (countStep w e cl)) = opts e"
    and "client (fst (countStep w e cl)) = client e"
    and "path (fst (countStep w e cl)) = path e"
    and "logger (fst (countStep w e cl)) = logger e"
    and "webListenAddress (fst (countStep w e cl)) = webListenAddress e"
  by (simp_all add: countStep_def split: sum.splits option.splits)

lemma makeRegistry_state:
  "fst (snd (makeRegistry w e cl ti)) =
     (case cl of None \<Rightarrow> e | Some c \<Rightarrow> e\<lparr>opts := collectAll (opts e)\<rparr>)"
  by (cases cl) (simp_all add: makeRegistry_None makeRegistry_Some)

lemma makeRegistry_countCalls: "countCalls (snd (snd (makeRegistry w e cl ti))) = 0"
  by (cases cl) (simp_all add: makeRegistry_None makeRegistry_Some countCalls_def split: option.splits)

lemma topologyStep_countCalls: "countCalls (snd (snd (topologyStep w cl rw))) = 0"
  by (simp add: topologyStep_def countCalls_def case_prod_beta split: option.splits)

lemma closeStep_countCalls: "countCalls (closeStep w g cl) = 0"
proof (cases g)
  case True
  then show ?thesis by (simp add: closeStep_def countCalls_def)
next
  case False
  then show ?thesis
    by (cases cl; cases "client_Disconnect w (the cl)") (simp_all add: closeStep_def countCalls_def)
qed

lemma countCalls_Nil: "countCalls [] = 0"
  by (simp add: countCalls_def)

lemma countCalls_Cons: "countCalls (x # xs) = (if isCallCount x then 1 else 0) + countCalls xs"
  by (simp add: countCalls_def)

lemma countCalls_append: "countCalls (xs @ ys) = countCalls xs + countCalls ys"
  by (simp add: countCalls_def)

lemma Handler_fst:
  "fst (Handler w e rw) =
     fst (snd (makeRegistry w
       (fst (countStep w (fst (snd (getClient w e))) (clientOf (fst (getClient w e)))))
       (clientOf (fst (getClient w e))) ti))"
  by (simp add: Handler_def clientOf_def Let_def makeRegistry_state case_prod_beta)

lemma Handler_events:
  "snd (snd (Handler w e rw)) =
     snd (snd (getClient w e)) @
     (case fst (getClient w e) of
        Inl err \<Rightarrow> [LogErrorf (''Cannot connect to MongoDB: '' @ err)] | Inr c \<Rightarrow> []) @
     snd (countStep w (fst (snd (getClient w e))) (clientOf (fst (getClient w e)))) @
     snd (snd (topologyStep w (clientOf (fst (getClient w e))) rw)) @
     snd (snd (makeRegistry w
       (fst (countStep w (fst (snd (getClient w e))) (clientOf (fst (getClient w e)))))
       (clientOf (fst (getClient w e)))
       (fst (topologyStep w (clientOf (fst (getClient w e))) rw)))) @
     closeStep w (GlobalConnPool (opts e)) (clientOf (fst (getClient w e)))"
  by (simp add: Handler_def clientOf_def Let_def case_prod_beta getClient_keeps countStep_keeps)

lemma Handler_countCalls:
  "countCalls (snd (snd (Handler w e rw))) =
     countCalls (snd (countStep w (fst (snd (getClient w e))) (clientOf (fst (getClient w e)))))"
  by (cases "fst (getClient w e)")
    (simp_all add: Handler_events countCalls_append getClient_countCalls makeRegistry_countCalls
      topologyStep_countCalls closeStep_countCalls countCalls_Nil countCalls_Cons)

lemma countStep_countCalls:
  "countCalls (snd (countStep w e cl)) =
     (if cl \<noteq> None \<and> totalCollectionsCount e < 0 then 1 else 0)"
  by (simp add: countStep_def countCalls_def getTotalCollectionsCount_def
      split: option.splits sum.splits)

lemma countStep_cache:
  "totalCollectionsCount (fst (countStep w e cl)) =
     (case cl of
        None \<Rightarrow> totalCollectionsCount e
      | Some c \<Rightarrow>
          (if totalCollectionsCount e < 0 then
             (case nonSystemCollectionsCount w c of
                Inr n \<Rightarrow> n | Inl err \<Rightarrow> totalCollectionsCount e)
           else totalCollectionsCount e))"
  by (simp add: countStep_def getTotalCollectionsCount_def split: option.splits sum.splits)

lemma countStep_phases:
  "runSchedule [(w, cl)] [0, 0, 0] (e, [BeforeRead], []) =
     (fst (countStep w e cl), [Finished], snd (countStep w e cl))"
  by (cases cl; cases "nonSystemCollectionsCount w (the cl)")
    (simp_all add: countStep_def)

lemma makeRegistry_cache:
  "totalCollectionsCount (fst (snd (makeRegistry w e cl ti))) = totalCollectionsCount e"
  by (cases cl) (simp_all add: makeRegistry_state)

lemma Handler_cache:
  "totalCollectionsCount (fst (Handler w e rw)) =
     (case clientOf (fst (getClient w e)) of
        None \<Rightarrow> totalCollectionsCount e
      | Some c \<Rightarrow>
          (if totalCollectionsCount e < 0 then
             (case nonSystemCollectionsCount w c of
                Inr n \<Rightarrow> n | Inl err \<Rightarrow> totalCollectionsCount e)
           else totalCollectionsCount e))"
  by (simp add: Handler_fst[where ti = None] makeRegistry_cache countStep_cache getClient_keeps
      split: option.splits sum.splits)

lemma Handler_known_cache:
  assumes "0 \<le> totalCollectionsCount e"
  shows "totalCollectionsCount (fst (Handler w e rw)) = totalCollectionsCount e \<and>
         countCalls (snd (snd (Handler w e rw))) = 0"
  using assms
  by (simp add: Handler_cache Handler_countCalls countStep_countCalls getClient_keeps
      split: option.splits)

lemma serveAll_known_cache:
  "0 \<le> totalCollectionsCount e \<Longrightarrow>
   totalCollectionsCount (fst (serveAll ws e)) = totalCollectionsCount e \<and>
   countCalls (snd (serveAll ws e)) = 0"
proof (induction ws arbitrary: e)
  case Nil
  then show ?case by (simp add: countCalls_def)
next
  case (Cons w ws)
  let ?e' = "fst (Handler w e newResponseWriter)"
  have h: "totalCollectionsCount ?e' = totalCollectionsCount e"
    and c: "countCalls (snd (snd (Handler w e newResponseWriter))) = 0"
    using Handler_known_cache[OF Cons.prems] by simp_all
  from Cons.prems h have "0 \<le> totalCollectionsCount ?e'" by simp
  from Cons.IH[OF this] h c show ?case
    by (simp add: case_prod_beta countCalls_append)
qed

lemma limitsOk_iff:
  "limitsOk e \<longleftrightarrow>
     CollStatsLimit (opts e) = 0 \<or>
     (0 < totalCollectionsCount e \<and> totalCollectionsCount e < CollStatsLimit (opts e))"
  by (simp add: limitsOk_def getTotalCollectionsCount_def)

lemma liveWorld_getClient:
  "getClient liveWorld limitedExporter = (Inr (MongoClient 1), limitedExporter, [CallConnect [] False, CallPing (MongoClient 1)])"
  by (simp add: getClient_def connect_def liveWorld_def limitedExporter_def New_def new_Opts_def)

lemmas model_defs =
  Handler_def getClient_def connect_def countStep_def topologyStep_def makeRegistry_def
  closeStep_def limitsOk_def collectAll_def gatedCollectors_def kinds_def clientOf_def
  getTotalCollectionsCount_def New_def New_goroutine_def new_Opts_def Let_def
  serveHTTP_def http_Error_def writeBody_def writeHeader_def newResponseWriter_def
  countCalls_def connectCalls_def

lemmas example_defs =
  liveWorld_def downWorld_def emptyDbWorld_def grownDbWorld_def limitedExporter_def

lemma New_cache: "totalCollectionsCount (New o0) = - 1"
  by (simp add: New_def Let_def)

lemma Handler_count_success:
  assumes "fst (getClient w e) = Inr c" and "totalCollectionsCount e < 0"
    and "nonSystemCollectionsCount w c = Inr n"
  shows "totalCollectionsCount (fst (Handler w e rw)) = n"
  using assms by (simp add: Handler_cache clientOf_def)

lemma Handler_count_failure:
  assumes "fst (getClient w e) = Inr c" and "nonSystemCollectionsCount w c = Inl err"
  shows "totalCollectionsCount (fst (Handler w e rw)) = totalCollectionsCount e"
  using assms by (simp add: Handler_cache clientOf_def)

lemma collectAll_fields:
  "collectAll o1 =
     o1\<lparr>DiscoveringMode := DiscoveringMode o1 \<or> (CollectAll o1 \<and> CollStatsNamespaces o1 = []),
        EnableDiagnosticData := EnableDiagnosticData o1 \<or> CollectAll o1,
        EnableDBStats := EnableDBStats o1 \<or> CollectAll o1,
        EnableTopMetrics := EnableTopMetrics o1 \<or> CollectAll o1,
        EnableReplicasetStatus := EnableReplicasetStatus o1 \<or> CollectAll o1\<rparr>"
  by (simp add: collectAll_def)

lemma collectAll_idem: "collectAll (collectAll o1) = collectAll o1"
  by (simp add: collectAll_def)

lemma kinds_makeRegistry_Some:
  "kinds (fst (makeRegistry w e (Some c) ti)) =
     General # kinds (gatedCollectors (collectAll (opts e)) (limitsOk e) (fst (getNodeType w c)) c ti)"
  by (simp add: makeRegistry_Some kinds_def)

lemma Handler_opts:
  "opts (fst (Handler w e rw)) =
     (if clientOf (fst (getClient w e)) = None then opts e else collectAll (opts e))"
  by (simp add: Handler_fst[where ti = None] makeRegistry_state getClient_keeps countStep_keeps
      split: option.splits)

lemma Handler_keeps:
  shows "path (fst (Handler w e rw)) = path e"
    and "logger (fst (Handler w e rw)) = logger e"
    and "webListenAddress (fst (Handler w e rw)) = webListenAddress e"
  by (simp_all add: Handler_fst[where ti = None] makeRegistry_state getClient_keeps countStep_keeps
      split: option.splits)

lemma connect_connectCalls: "connectCalls (snd (connect w dsn d)) = 1"
  by (simp add: connect_events)

lemma applyOp_sent:
  assumes "status w = Some s"
  shows "status (applyOp w op) = Some s \<and>
         sentContentType (applyOp w op) = sentContentType w \<and>
         (\<exists>rest. body (applyOp w op) = body w @ rest)"
  using assms by (cases op) (simp_all add: writeHeader_def writeBody_def)

lemma serveHTTP_sent:
  "status w = Some s \<Longrightarrow>
   status (serveHTTP ops w) = Some s \<and>
   sentContentType (serveHTTP ops w) = sentContentType w \<and>
   (\<exists>rest. body (serveHTTP ops w) = body w @ rest)"
proof (induction ops arbitrary: w)
  case Nil
  then show ?case by (simp add: serveHTTP_def)
next
  case (Cons op ops)
  from applyOp_sent[OF Cons.prems, of op] obtain r1 where
    a: "status (applyOp w op) = Some s"
    and b: "sentContentType (applyOp w op) = sentContentType w"
    and c: "body (applyOp w op) = body w @ r1"
    by blast
  from Cons.IH[OF a] obtain r2 where
    d: "status (serveHTTP ops (applyOp w op)) = Some s"
    and e: "sentContentType (serveHTTP ops (applyOp w op)) = sentContentType (applyOp w op)"
    and f: "body (serveHTTP ops (applyOp w op)) = body (applyOp w op) @ r2"
    by blast
  have u: "serveHTTP (op # ops) w = serveHTTP ops (applyOp w op)"
    by (simp add: serveHTTP_def)
  from b c d e f show ?case unfolding u by simp
qed

lemma http_Error_fresh:
  "status (http_Error newResponseWriter msg code) = Some code \<and>
   sentContentType (http_Error newResponseWriter msg code) = Some ''text/plain; charset=utf-8'' \<and>
   body (http_Error newResponseWriter msg code) = msg @ [CHR 0x0A]"
  by (simp add: http_Error_def writeBody_def writeHeader_def newResponseWriter_def)

lemma Handler_response:
  "fst (snd (Handler w e rw)) =
     serveHTTP
       (promhttp_Handler w
          ((if \<not> DisableDefaultRegistry (opts (fst (Handler w e rw)))
            then [DefaultGatherer] else []) @
           [RegistryGatherer
              (fst (makeRegistry w
                 (fst (countStep w (fst (snd (getClient w e))) (clientOf (fst (getClient w e)))))
                 (clientOf (fst (getClient w e)))
                 (fst (topologyStep w (clientOf (fst (getClient w e))) rw))))]))
       (fst (snd (topologyStep w (clientOf (fst (getClient w e))) rw)))"
  by (simp add: Handler_def clientOf_def Let_def case_prod_beta)

lemma connect_topology_irrelevant:
  "connect (w\<lparr>newTopologyInfo := f\<rparr>) dsn d = connect w dsn d"
  by (simp add: connect_def split: sum.splits option.splits)

lemma getClient_topology_irrelevant:
  "getClient (w\<lparr>newTopologyInfo := f\<rparr>) e = getClient w e"
  by (simp add: getClient_def connect_topology_irrelevant split: option.splits)

lemma countStep_topology_irrelevant:
  "countStep (w\<lparr>newTopologyInfo := f\<rparr>) e cl = countStep w e cl"
  by (simp add: countStep_def split: option.splits sum.splits)

lemma Handler_state_topology_irrelevant:
  "fst (Handler (w\<lparr>newTopologyInfo := f\<rparr>) e rw) = fst (Handler w e rw)"
  by (simp add: Handler_fst[where ti = None] makeRegistry_state getClient_topology_irrelevant
      countStep_topology_irrelevant)

section \<open>The claims\<close>

subsection \<open>C1: the general collector is always registered\<close>

text \<open>
  Claim C1. Whatever the connection (nil or not) and the topology information, the
  registry built by \<^verbatim>\<open>makeRegistry\<close> contains the general collector, as its first entry;
  with a nil connection the registry is exactly that one collector.
\<close>

theorem makeRegistry_general_collector:
  "hd (fst (makeRegistry w e cl ti)) = generalCollector cl (Logger (opts e)) \<and>
   generalCollector cl (Logger (opts e)) \<in> set (fst (makeRegistry w e cl ti)) \<and>
   General \<in> set (kinds (fst (makeRegistry w e cl ti))) \<and>
   fst (makeRegistry w e None ti) = [generalCollector None (Logger (opts e))] \<and>
   kinds (fst (makeRegistry w e None ti)) = [General]"
  by (cases cl) (simp_all add: makeRegistry_None makeRegistry_Some kinds_def)

subsection \<open>C2: the limit gate\<close>

text \<open>
  Claim C2. With a ceiling other than zero, the limit gate is meant to pass exactly when
  the cached count is known (not the sentinel \<open>-1\<close>) and below the ceiling. The gate of
  \<^verbatim>\<open>makeRegistry\<close> tests \<^verbatim>\<open>count > 0\<close>, whereas the handler tests \<^verbatim>\<open>count < 0\<close>
  for "not counted yet": a count of 0 is known to the handler, which never counts again, and
  unknown to the gate. Evaluated here: the first request against a server without user
  collections caches 0; with ceiling 100 the gate is then closed, and a registry built on
  that exporter holds the general collector only, although collstats and indexstats are
  enabled in discovery mode. The lemma \<open>limitsOk_iff\<close> above states the gate as coded.
\<close>

theorem limitsOk_zero_count:
  "totalCollectionsCount (fst (Handler emptyDbWorld limitedExporter newResponseWriter)) = 0 \<and>
   CollStatsLimit (opts (fst (Handler emptyDbWorld limitedExporter newResponseWriter))) = 100 \<and>
   \<not> limitsOk (fst (Handler emptyDbWorld limitedExporter newResponseWriter)) \<and>
   kinds (fst (makeRegistry emptyDbWorld
      (fst (Handler emptyDbWorld limitedExporter newResponseWriter))
      (Some (MongoClient 1)) None)) = [General]"
  by (simp add: model_defs example_defs)

subsection \<open>C3: the collection-count cache\<close>

text \<open>
  Claim C3, amended to requests that do not overlap. The cache starts at \<open>-1\<close>. On an
  exporter whose cache is \<open>-1\<close> or a count, and with a counter that returns no negative
  number, a request that runs with no other request in between calls the counter once if
  it has a client and the cache is \<open>-1\<close>, and not at all otherwise. A successful count is
  stored, and from then on no sequence of requests served one after the other calls the
  counter or changes the cache. A failed count leaves the cache at \<open>-1\<close>. The request keeps
  the cache at \<open>-1\<close> or at a count.
\<close>

theorem collection_count_cache:
  assumes nonneg: "\<forall>c n. nonSystemCollectionsCount w c = Inr n \<longrightarrow> 0 \<le> n"
    and start: "totalCollectionsCount e = - 1 \<or> 0 \<le> totalCollectionsCount e"
  shows
    "totalCollectionsCount (New o0) = - 1 \<and>
     countCalls (snd (snd (Handler w e rw))) =
       (if clientOf (fst (getClient w e)) \<noteq> None \<and> totalCollectionsCount e = - 1
        then 1 else 0) \<and>
     (\<forall>c n. fst (getClient w e) = Inr c \<and> totalCollectionsCount e = - 1 \<and>
        nonSystemCollectionsCount w c = Inr n \<longrightarrow>
          totalCollectionsCount (fst (Handler w e rw)) = n \<and>
          (\<forall>ws. totalCollectionsCount (fst (serveAll ws (fst (Handler w e rw)))) = n \<and>
                countCalls (snd (serveAll ws (fst (Handler w e rw)))) = 0)) \<and>
     (\<forall>c err. fst (getClient w e) = Inr c \<and> totalCollectionsCount e = - 1 \<and>
        nonSystemCollectionsCount w c = Inl err \<longrightarrow>
          totalCollectionsCount (fst (Handler w e rw)) = - 1) \<and>
     (0 \<le> totalCollectionsCount e \<longrightarrow>
        (\<forall>ws. totalCollectionsCount (fst (serveAll ws e)) = totalCollectionsCount e \<and>
              countCalls (snd (serveAll ws e)) = 0)) \<and>
     (totalCollectionsCount (fst (Handler w e rw)) = - 1 \<or>
      0 \<le> totalCollectionsCount (fst (Handler w e rw)))"
proof -
  have sentinel: "totalCollectionsCount e < 0 \<longleftrightarrow> totalCollectionsCount e = - 1"
    using start by auto
  have attempts: "countCalls (snd (snd (Handler w e rw))) =
       (if clientOf (fst (getClient w e)) \<noteq> None \<and> totalCollectionsCount e = - 1
        then 1 else 0)"
    by (simp add: Handler_countCalls countStep_countCalls getClient_keeps sentinel)
  have success: "totalCollectionsCount (fst (Handler w e rw)) = n \<and>
          (\<forall>ws. totalCollectionsCount (fst (serveAll ws (fst (Handler w e rw)))) = n \<and>
                countCalls (snd (serveAll ws (fst (Handler w e rw)))) = 0)"
    if h: "fst (getClient w e) = Inr c \<and> totalCollectionsCount e = - 1 \<and>
        nonSystemCollectionsCount w c = Inr n" for c n
  proof -
    from h have n: "totalCollectionsCount (fst (Handler w e rw)) = n"
      using Handler_count_success[of w e c n rw] by simp
    from h nonneg have "0 \<le> n" by blast
    with n have "0 \<le> totalCollectionsCount (fst (Handler w e rw))" by simp
    from serveAll_known_cache[OF this] n show ?thesis by simp
  qed
  have failure: "totalCollectionsCount (fst (Handler w e rw)) = - 1"
    if h: "fst (getClient w e) = Inr c \<and> totalCollectionsCount e = - 1 \<and>
        nonSystemCollectionsCount w c = Inl err" for c err
    using h Handler_count_failure[of w e c err rw] by simp
  have known: "\<forall>ws. totalCollectionsCount (fst (serveAll ws e)) = totalCollectionsCount e \<and>
              countCalls (snd (serveAll ws e)) = 0"
    if "0 \<le> totalCollectionsCount e"
    using serveAll_known_cache[OF that] by simp
  have inv: "totalCollectionsCount (fst (Handler w e rw)) = - 1 \<or>
      0 \<le> totalCollectionsCount (fst (Handler w e rw))"
    using start nonneg
    by (auto simp add: Handler_cache split: option.splits sum.splits)
  from New_cache attempts success failure known inv show ?thesis by blast
qed

theorem collection_count_cache_witness:
  "totalCollectionsCount limitedExporter = - 1 \<and>
   countCalls (snd (snd (Handler liveWorld limitedExporter newResponseWriter))) = 1 \<and>
   totalCollectionsCount (fst (Handler liveWorld limitedExporter newResponseWriter)) = 50 \<and>
   totalCollectionsCount
     (fst (serveAll [emptyDbWorld, downWorld, liveWorld]
        (fst (Handler liveWorld limitedExporter newResponseWriter)))) = 50 \<and>
   countCalls
     (snd (serveAll [emptyDbWorld, downWorld, liveWorld]
        (fst (Handler liveWorld limitedExporter newResponseWriter)))) = 0"
proof -
  have nonneg: "\<forall>c n. nonSystemCollectionsCount liveWorld c = Inr n \<longrightarrow> 0 \<le> n"
    by (simp add: liveWorld_def)
  have s: "totalCollectionsCount limitedExporter = - 1"
    by (simp add: limitedExporter_def New_cache)
  then have start: "totalCollectionsCount limitedExporter = - 1 \<or>
      0 \<le> totalCollectionsCount limitedExporter"
    by simp
  have cl: "fst (getClient liveWorld limitedExporter) = Inr (MongoClient 1)"
    by (simp add: liveWorld_getClient)
  have cnt: "nonSystemCollectionsCount liveWorld (MongoClient 1) = Inr 50"
    by (simp add: liveWorld_def)
  note inst = collection_count_cache[OF nonneg start, of None newResponseWriter]
  from inst cl s have calls:
    "countCalls (snd (snd (Handler liveWorld limitedExporter newResponseWriter))) = 1"
    by (simp add: clientOf_def)
  from inst cl cnt s have later:
    "totalCollectionsCount (fst (Handler liveWorld limitedExporter newResponseWriter)) = 50 \<and>
     (\<forall>ws. totalCollectionsCount
        (fst (serveAll ws (fst (Handler liveWorld limitedExporter newResponseWriter)))) = 50 \<and>
      countCalls
        (snd (serveAll ws (fst (Handler liveWorld limitedExporter newResponseWriter)))) = 0)"
    by blast
  from s calls later show ?thesis
    by blast
qed

text \<open>
  The claim as stated, for any later request, fails when two first requests overlap. Both
  hold a client and both read the cache as \<open>-1\<close> before either writes. The first counts 50
  and stores it; the second, whose read is already behind it, still counts (the server has
  60 collections by then) and stores 60 over the 50: two calls of the counter, and a cache
  that was set is overwritten.
\<close>

theorem overlapping_requests_counterexample:
  "totalCollectionsCount limitedExporter = - 1 \<and>
   totalCollectionsCount
     (fst (runSchedule [(liveWorld, Some (MongoClient 1)), (grownDbWorld, Some (MongoClient 1))]
        [0, 1, 0, 0] (limitedExporter, [BeforeRead, BeforeRead], []))) = 50 \<and>
   totalCollectionsCount
     (fst (runSchedule [(liveWorld, Some (MongoClient 1)), (grownDbWorld, Some (MongoClient 1))]
        [0, 1, 0, 0, 1, 1] (limitedExporter, [BeforeRead, BeforeRead], []))) = 60 \<and>
   countCalls
     (snd (snd (runSchedule [(liveWorld, Some (MongoClient 1)), (grownDbWorld, Some (MongoClient 1))]
        [0, 1, 0, 0, 1, 1] (limitedExporter, [BeforeRead, BeforeRead], [])))) = 2"
  by (simp add: model_defs example_defs)

subsection \<open>C4: the collect-all flag\<close>

text \<open>
  What \<^verbatim>\<open>CollectAll\<close> does force, on a registry build with a client: the four enable
  flags, and the discovery mode if no collstats namespace was given. It leaves
  \<^verbatim>\<open>EnableCollStats\<close> and \<^verbatim>\<open>EnableIndexStats\<close> as they were, and without them neither
  collector that reads the discovery mode is registered, whatever the other options, the
  count and the node type.
\<close>

lemma collectAll_forced_flags:
  assumes "CollectAll (opts e)"
  shows
    "EnableDiagnosticData (opts (fst (snd (makeRegistry w e (Some c) ti)))) \<and>
     EnableDBStats (opts (fst (snd (makeRegistry w e (Some c) ti)))) \<and>
     EnableTopMetrics (opts (fst (snd (makeRegistry w e (Some c) ti)))) \<and>
     EnableReplicasetStatus (opts (fst (snd (makeRegistry w e (Some c) ti)))) \<and>
     (CollStatsNamespaces (opts e) = [] \<longrightarrow>
        DiscoveringMode (opts (fst (snd (makeRegistry w e (Some c) ti))))) \<and>
     EnableCollStats (opts (fst (snd (makeRegistry w e (Some c) ti)))) =
       EnableCollStats (opts e) \<and>
     EnableIndexStats (opts (fst (snd (makeRegistry w e (Some c) ti)))) =
       EnableIndexStats (opts e)"
  using assms by (simp add: makeRegistry_state collectAll_def)

lemma collectAll_alone_registers_no_collstats:
  assumes "\<not> EnableCollStats (opts e)" and "\<not> EnableIndexStats (opts e)"
  shows "CollStats \<notin> set (kinds (fst (makeRegistry w e (Some c) ti))) \<and>
         IndexStats \<notin> set (kinds (fst (makeRegistry w e (Some c) ti)))"
  using assms
  by (simp add: kinds_makeRegistry_Some kinds_gatedCollectors collectAll_fields)

text \<open>
  Claim C4. With \<^verbatim>\<open>CollectAll\<close> set, no collstats namespace and the limit gate open,
  the collstats collector is meant to be in the registry. The \<^verbatim>\<open>CollectAll\<close> block
  turns the discovery mode on, which only the collstats and indexstats conditions read, but
  sets neither \<^verbatim>\<open>EnableCollStats\<close> nor \<^verbatim>\<open>EnableIndexStats\<close>, which the same conditions
  require. Evaluated here: options with \<^verbatim>\<open>CollectAll\<close> alone, ceiling zero, a live
  client and a node that is no router. The discovery mode is on afterwards, the four other
  collectors are registered, the collstats collector is not.
\<close>

theorem collectAll_leaves_collstats_out:
  "CollectAll (opts collectAllExporter) \<and>
   CollStatsNamespaces (opts collectAllExporter) = [] \<and>
   limitsOk collectAllExporter \<and>
   DiscoveringMode
     (opts (fst (snd (makeRegistry liveWorld collectAllExporter (Some (MongoClient 1)) None)))) \<and>
   kinds (fst (makeRegistry liveWorld collectAllExporter (Some (MongoClient 1)) None)) =
     [General, DiagnosticData, DBStats, Top, ReplSetGetStatus] \<and>
   CollStats \<notin>
     set (kinds (fst (makeRegistry liveWorld collectAllExporter (Some (MongoClient 1)) None)))"
  by (simp add: model_defs example_defs collectAllExporter_def)

subsection \<open>C5: what request handling writes\<close>

text \<open>
  Claim C5, amended. \<^verbatim>\<open>getClient\<close> leaves the options as they are. \<^verbatim>\<open>makeRegistry\<close>,
  and so the handler, leave them as they are without a client, and with a client replace
  them by \<open>collectAll\<close> of them: if \<^verbatim>\<open>CollectAll\<close> is set, the four enable flags and
  possibly the discovery mode become true, every other option keeps its value, and a second
  run changes nothing more. Of the exporter's other fields the handler leaves the path, the
  logger and the listen address alone; the client and the count cache are the fields it
  may write.
\<close>

theorem opts_written_only_by_collectAll:
  "opts (fst (snd (getClient w e))) = opts e \<and>
   opts (fst (snd (makeRegistry w e cl ti))) =
     (if cl = None then opts e else collectAll (opts e)) \<and>
   opts (fst (Handler w e rw)) =
     (if clientOf (fst (getClient w e)) = None then opts e else collectAll (opts e)) \<and>
   collectAll (opts e) =
     (opts e)\<lparr>DiscoveringMode :=
                 DiscoveringMode (opts e) \<or>
                 (CollectAll (opts e) \<and> CollStatsNamespaces (opts e) = []),
               EnableDiagnosticData := EnableDiagnosticData (opts e) \<or> CollectAll (opts e),
               EnableDBStats := EnableDBStats (opts e) \<or> CollectAll (opts e),
               EnableTopMetrics := EnableTopMetrics (opts e) \<or> CollectAll (opts e),
               EnableReplicasetStatus := EnableReplicasetStatus (opts e) \<or> CollectAll (opts e)\<rparr> \<and>
   collectAll (collectAll (opts e)) = collectAll (opts e) \<and>
   path (fst (Handler w e rw)) = path e \<and>
   logger (fst (Handler w e rw)) = logger e \<and>
   webListenAddress (fst (Handler w e rw)) = webListenAddress e"
proof -
  have mk: "opts (fst (snd (makeRegistry w e cl ti))) =
     (if cl = None then opts e else collectAll (opts e))"
    by (cases cl) (simp_all add: makeRegistry_state)
  show ?thesis
    by (intro conjI)
      (rule getClient_keeps mk Handler_opts collectAll_fields collectAll_idem Handler_keeps)+
qed

theorem opts_written_only_by_collectAll_witness:
  "opts (fst (Handler downWorld collectAllExporter newResponseWriter)) = opts collectAllExporter \<and>
   opts (fst (Handler liveWorld collectAllExporter newResponseWriter)) =
     (opts collectAllExporter)\<lparr>DiscoveringMode := True, EnableDiagnosticData := True,
        EnableDBStats := True, EnableTopMetrics := True, EnableReplicasetStatus := True\<rparr>"
proof -
  have a: "clientOf (fst (getClient downWorld collectAllExporter)) = None"
    by (simp add: model_defs example_defs collectAllExporter_def)
  have b: "clientOf (fst (getClient liveWorld collectAllExporter)) \<noteq> None"
    by (simp add: model_defs example_defs collectAllExporter_def)
  have c: "CollectAll (opts collectAllExporter)" "CollStatsNamespaces (opts collectAllExporter) = []"
    by (simp_all add: collectAllExporter_def New_def new_Opts_def Let_def)
  from opts_written_only_by_collectAll[of downWorld collectAllExporter None None newResponseWriter]
    opts_written_only_by_collectAll[of liveWorld collectAllExporter None None newResponseWriter]
    a b c
  show ?thesis by simp
qed

text \<open>
  The claim as stated fails: one request on a live server with \<^verbatim>\<open>CollectAll\<close> set
  turns \<^verbatim>\<open>EnableDBStats\<close> from false to true in the exporter's options.
\<close>

theorem opts_mutated_counterexample:
  "\<not> EnableDBStats (opts collectAllExporter) \<and>
   EnableDBStats (opts (fst (Handler liveWorld collectAllExporter newResponseWriter))) \<and>
   opts (fst (Handler liveWorld collectAllExporter newResponseWriter)) \<noteq> opts collectAllExporter \<and>
   opts (fst (snd (makeRegistry liveWorld collectAllExporter (Some (MongoClient 1)) None)))
     \<noteq> opts collectAllExporter"
  by (simp add: model_defs example_defs collectAllExporter_def)

subsection \<open>C6: the shared client\<close>

text \<open>
  Claim C6. With \<^verbatim>\<open>GlobalConnPool\<close> set: a stored client is returned with no event at
  all, so without a connect; with none stored, a successful connect returns the new client
  and stores it, and every later call returns it without a connect; a failed connect
  returns the error and leaves the exporter as it was, no client stored, so that the next
  call connects again.
\<close>

theorem getClient_pooled:
  assumes "GlobalConnPool (opts e)"
  shows
    "(\<forall>c. client e = Some c \<longrightarrow> getClient w e = (Inr c, e, [])) \<and>
     (\<forall>c evs. client e = None \<and>
        connect w (URI (opts e)) (DirectConnect (opts e)) = (Inr c, evs) \<longrightarrow>
          getClient w e = (Inr c, e\<lparr>client := Some c\<rparr>, evs) \<and>
          (\<forall>w'. getClient w' (e\<lparr>client := Some c\<rparr>) = (Inr c, e\<lparr>client := Some c\<rparr>, []))) \<and>
     (\<forall>err evs. client e = None \<and>
        connect w (URI (opts e)) (DirectConnect (opts e)) = (Inl err, evs) \<longrightarrow>
          getClient w e = (Inl err, e, evs) \<and>
          client (fst (snd (getClient w e))) = None \<and>
          (\<forall>w'. connectCalls (snd (snd (getClient w' e))) = 1))"
proof -
  have retry: "connectCalls (snd (snd (getClient w' e))) = 1" if "client e = None" for w'
    using that assms connect_connectCalls[of w' "URI (opts e)" "DirectConnect (opts e)"]
    by (simp add: getClient_def case_prod_beta split: sum.splits)
  show ?thesis
    using assms retry by (auto simp add: getClient_def)
qed

theorem getClient_pooled_witness:
  "getClient liveWorld pooledExporter =
     (Inr (MongoClient 1), pooledExporter\<lparr>client := Some (MongoClient 1)\<rparr>,
      [CallConnect [] False, CallPing (MongoClient 1)]) \<and>
   getClient downWorld (pooledExporter\<lparr>client := Some (MongoClient 1)\<rparr>) =
     (Inr (MongoClient 1), pooledExporter\<lparr>client := Some (MongoClient 1)\<rparr>, []) \<and>
   getClient downWorld pooledExporter =
     (Inl ''cannot connect to MongoDB: server selection timeout'', pooledExporter,
      [CallConnect [] False, CallPing (MongoClient 1), CallDisconnect (MongoClient 1)]) \<and>
   connectCalls (snd (snd (getClient liveWorld pooledExporter))) = 1"
proof -
  have g: "GlobalConnPool (opts pooledExporter)" "client pooledExporter = None"
    "URI (opts pooledExporter) = []" "DirectConnect (opts pooledExporter) = False"
    by (simp_all add: pooledExporter_def New_def new_Opts_def Let_def)
  have live: "connect liveWorld [] False =
      (Inr (MongoClient 1), [CallConnect [] False, CallPing (MongoClient 1)])"
    by (simp add: connect_def liveWorld_def)
  have down: "connect downWorld [] False =
      (Inl ''cannot connect to MongoDB: server selection timeout'',
       [CallConnect [] False, CallPing (MongoClient 1), CallDisconnect (MongoClient 1)])"
    by (simp add: connect_def liveWorld_def downWorld_def)
  from getClient_pooled[OF g(1), of liveWorld] g live
  have a: "getClient liveWorld pooledExporter =
     (Inr (MongoClient 1), pooledExporter\<lparr>client := Some (MongoClient 1)\<rparr>,
      [CallConnect [] False, CallPing (MongoClient 1)]) \<and>
     (\<forall>w'. getClient w' (pooledExporter\<lparr>client := Some (MongoClient 1)\<rparr>) =
        (Inr (MongoClient 1), pooledExporter\<lparr>client := Some (MongoClient 1)\<rparr>, []))"
    by simp
  from getClient_pooled[OF g(1), of downWorld] g down
  have b: "getClient downWorld pooledExporter =
     (Inl ''cannot connect to MongoDB: server selection timeout'', pooledExporter,
      [CallConnect [] False, CallPing (MongoClient 1), CallDisconnect (MongoClient 1)]) \<and>
     (\<forall>w'. connectCalls (snd (snd (getClient w' pooledExporter))) = 1)"
    by simp
  from a b show ?thesis by blast
qed

subsection \<open>C7: the role gate on a router\<close>

text \<open>
  Claim C7. When the node type is \<^verbatim>\<open>typeMongos\<close>, the registry has neither the top
  collector nor the replica set status collector; it has the diagnostic data collector
  exactly when that is enabled (by its flag or by \<^verbatim>\<open>CollectAll\<close>), and likewise the
  database stats collector; with the flag set, the collector registered is the one built
  from the request's client, options and topology information.
\<close>

theorem mongos_role_gate:
  assumes "fst (getNodeType w c) = typeMongos"
  shows
    "Top \<notin> set (kinds (fst (makeRegistry w e (Some c) ti))) \<and>
     ReplSetGetStatus \<notin> set (kinds (fst (makeRegistry w e (Some c) ti))) \<and>
     (DiagnosticData \<in> set (kinds (fst (makeRegistry w e (Some c) ti))) \<longleftrightarrow>
        EnableDiagnosticData (opts e) \<or> CollectAll (opts e)) \<and>
     (DBStats \<in> set (kinds (fst (makeRegistry w e (Some c) ti))) \<longleftrightarrow>
        EnableDBStats (opts e) \<or> CollectAll (opts e)) \<and>
     (EnableDiagnosticData (opts e) \<longrightarrow>
        diagnosticDataCollector c (CompatibleMode (opts e)) (Logger (opts e)) ti
          \<in> set (fst (makeRegistry w e (Some c) ti))) \<and>
     (EnableDBStats (opts e) \<longrightarrow>
        dbstatsCollector c (CompatibleMode (opts e)) (Logger (opts e)) ti
          \<in> set (fst (makeRegistry w e (Some c) ti)))"
proof -
  let ?o = "collectAll (opts e)"
  have k: "kinds (fst (makeRegistry w e (Some c) ti)) =
      General # kinds (gatedCollectors ?o (limitsOk e) typeMongos c ti)"
    using assms by (simp add: kinds_makeRegistry_Some)
  have top: "Top \<notin> set (kinds (fst (makeRegistry w e (Some c) ti)))"
    and rs: "ReplSetGetStatus \<notin> set (kinds (fst (makeRegistry w e (Some c) ti)))"
    by (simp_all add: k kinds_gatedCollectors)
  have dd: "DiagnosticData \<in> set (kinds (fst (makeRegistry w e (Some c) ti))) \<longleftrightarrow>
        EnableDiagnosticData (opts e) \<or> CollectAll (opts e)"
    and db: "DBStats \<in> set (kinds (fst (makeRegistry w e (Some c) ti))) \<longleftrightarrow>
        EnableDBStats (opts e) \<or> CollectAll (opts e)"
    by (simp_all add: k kinds_gatedCollectors collectAll_fields)
  have same: "CompatibleMode ?o = CompatibleMode (opts e)" "Logger ?o = Logger (opts e)"
    by (simp_all add: collectAll_fields)
  have ddc: "diagnosticDataCollector c (CompatibleMode (opts e)) (Logger (opts e)) ti
          \<in> set (fst (makeRegistry w e (Some c) ti))" if "EnableDiagnosticData (opts e)"
  proof -
    from that have "EnableDiagnosticData ?o" by (simp add: collectAll_fields)
    then have "diagnosticDataCollector c (CompatibleMode ?o) (Logger ?o) ti
        \<in> set (gatedCollectors ?o (limitsOk e) (fst (getNodeType w c)) c ti)"
      by (simp add: gatedCollectors_def)
    then show ?thesis by (simp add: makeRegistry_Some same)
  qed
  have dbc: "dbstatsCollector c (CompatibleMode (opts e)) (Logger (opts e)) ti
          \<in> set (fst (makeRegistry w e (Some c) ti))" if "EnableDBStats (opts e)"
  proof -
    from that have "EnableDBStats ?o" by (simp add: collectAll_fields)
    then have "dbstatsCollector c (CompatibleMode ?o) (Logger ?o) ti
        \<in> set (gatedCollectors ?o (limitsOk e) (fst (getNodeType w c)) c ti)"
      by (simp add: gatedCollectors_def)
    then show ?thesis by (simp add: makeRegistry_Some same)
  qed
  from top rs dd db ddc dbc show ?thesis by blast
qed

theorem mongos_role_gate_witness:
  "kinds (fst (makeRegistry mongosWorld enabledExporter (Some (MongoClient 1)) None)) =
     [General, DiagnosticData, DBStats] \<and>
   Top \<notin> set (kinds (fst (makeRegistry mongosWorld enabledExporter (Some (MongoClient 1)) None))) \<and>
   ReplSetGetStatus \<notin>
     set (kinds (fst (makeRegistry mongosWorld enabledExporter (Some (MongoClient 1)) None))) \<and>
   DiagnosticData \<in>
     set (kinds (fst (makeRegistry mongosWorld enabledExporter (Some (MongoClient 1)) None))) \<and>
   DBStats \<in>
     set (kinds (fst (makeRegistry mongosWorld enabledExporter (Some (MongoClient 1)) None)))"
proof -
  have m: "fst (getNodeType mongosWorld (MongoClient 1)) = typeMongos"
    by (simp add: mongosWorld_def liveWorld_def)
  have f: "EnableDiagnosticData (opts enabledExporter)" "EnableDBStats (opts enabledExporter)"
    by (simp_all add: enabledExporter_def New_def new_Opts_def Let_def)
  have k: "kinds (fst (makeRegistry mongosWorld enabledExporter (Some (MongoClient 1)) None)) =
     [General, DiagnosticData, DBStats]"
    by (simp add: model_defs example_defs mongosWorld_def enabledExporter_def)
  from mongos_role_gate[OF m, of enabledExporter None] f k show ?thesis
    by blast
qed

subsection \<open>C8: a failed node-type query\<close>

text \<open>
  Claim C8, amended. When \<^verbatim>\<open>getNodeType\<close> returns an error, \<^verbatim>\<open>makeRegistry\<close> logs it
  and goes on with the node type returned beside the error: the registry is the one it
  would build had the query answered that type without error. The diagnostic data and
  database stats collectors are registered when enabled; the top and replica set status
  collectors are registered when enabled and the returned type is not \<^verbatim>\<open>typeMongos\<close>, so
  they are kept, not skipped, when the returned type is not a router.
\<close>

theorem nodeType_failure_uses_returned_type:
  assumes "snd (getNodeType w c) = Some err"
  shows
    "LogErrorf (''Cannot get node type to check if this is a mongos: '' @ err)
        \<in> set (snd (snd (makeRegistry w e (Some c) ti))) \<and>
     fst (makeRegistry w e (Some c) ti) =
       fst (makeRegistry (w\<lparr>getNodeType := (\<lambda>c'. (fst (getNodeType w c'), None))\<rparr>) e (Some c) ti) \<and>
     (DiagnosticData \<in> set (kinds (fst (makeRegistry w e (Some c) ti))) \<longleftrightarrow>
        EnableDiagnosticData (opts e) \<or> CollectAll (opts e)) \<and>
     (DBStats \<in> set (kinds (fst (makeRegistry w e (Some c) ti))) \<longleftrightarrow>
        EnableDBStats (opts e) \<or> CollectAll (opts e)) \<and>
     (Top \<in> set (kinds (fst (makeRegistry w e (Some c) ti))) \<longleftrightarrow>
        (EnableTopMetrics (opts e) \<or> CollectAll (opts e)) \<and>
        fst (getNodeType w c) \<noteq> typeMongos) \<and>
     (ReplSetGetStatus \<in> set (kinds (fst (makeRegistry w e (Some c) ti))) \<longleftrightarrow>
        (EnableReplicasetStatus (opts e) \<or> CollectAll (opts e)) \<and>
        fst (getNodeType w c) \<noteq> typeMongos)"
proof -
  have lg: "LogErrorf (''Cannot get node type to check if this is a mongos: '' @ err)
        \<in> set (snd (snd (makeRegistry w e (Some c) ti)))"
    using assms by (simp add: makeRegistry_Some)
  have same: "fst (makeRegistry w e (Some c) ti) =
       fst (makeRegistry (w\<lparr>getNodeType := (\<lambda>c'. (fst (getNodeType w c'), None))\<rparr>) e (Some c) ti)"
    by (simp add: makeRegistry_Some)
  have dd: "DiagnosticData \<in> set (kinds (fst (makeRegistry w e (Some c) ti))) \<longleftrightarrow>
        EnableDiagnosticData (opts e) \<or> CollectAll (opts e)"
    and db: "DBStats \<in> set (kinds (fst (makeRegistry w e (Some c) ti))) \<longleftrightarrow>
        EnableDBStats (opts e) \<or> CollectAll (opts e)"
    and tp: "Top \<in> set (kinds (fst (makeRegistry w e (Some c) ti))) \<longleftrightarrow>
        (EnableTopMetrics (opts e) \<or> CollectAll (opts e)) \<and>
        fst (getNodeType w c) \<noteq> typeMongos"
    and rs: "ReplSetGetStatus \<in> set (kinds (fst (makeRegistry w e (Some c) ti))) \<longleftrightarrow>
        (EnableReplicasetStatus (opts e) \<or> CollectAll (opts e)) \<and>
        fst (getNodeType w c) \<noteq> typeMongos"
    by (simp_all add: kinds_makeRegistry_Some kinds_gatedCollectors collectAll_fields)
  from lg same dd db tp rs show ?thesis by blast
qed

theorem nodeType_failure_uses_returned_type_witness:
  "LogErrorf (''Cannot get node type to check if this is a mongos: '' @ ''connection reset'')
     \<in> set (snd (snd (makeRegistry nodeTypeFailsWorld enabledExporter (Some (MongoClient 1)) None))) \<and>
   DiagnosticData \<in> set (kinds (fst (makeRegistry nodeTypeFailsWorld enabledExporter
                            (Some (MongoClient 1)) None))) \<and>
   Top \<in> set (kinds (fst (makeRegistry nodeTypeFailsWorld enabledExporter
                            (Some (MongoClient 1)) None)))"
proof -
  have f: "snd (getNodeType nodeTypeFailsWorld (MongoClient 1)) = Some ''connection reset''"
    "fst (getNodeType nodeTypeFailsWorld (MongoClient 1)) \<noteq> typeMongos"
    by (simp_all add: nodeTypeFailsWorld_def liveWorld_def)
  have o: "EnableDiagnosticData (opts enabledExporter)" "EnableTopMetrics (opts enabledExporter)"
    by (simp_all add: enabledExporter_def New_def new_Opts_def Let_def)
  from nodeType_failure_uses_returned_type[OF f(1), of enabledExporter None] f(2) o
  show ?thesis by blast
qed

text \<open>
  The claim as stated fails: the query fails and returns the zero value of the type, the
  four collectors are enabled, and the top and replica set status collectors are
  registered.
\<close>

theorem nodeType_failure_counterexample:
  "snd (getNodeType nodeTypeFailsWorld (MongoClient 1)) = Some ''connection reset'' \<and>
   kinds (fst (makeRegistry nodeTypeFailsWorld enabledExporter (Some (MongoClient 1)) None)) =
     [General, DiagnosticData, DBStats, Top, ReplSetGetStatus] \<and>
   Top \<in> set (kinds (fst (makeRegistry nodeTypeFailsWorld enabledExporter
                            (Some (MongoClient 1)) None))) \<and>
   ReplSetGetStatus \<in> set (kinds (fst (makeRegistry nodeTypeFailsWorld enabledExporter
                            (Some (MongoClient 1)) None)))"
  by (simp add: model_defs example_defs nodeTypeFailsWorld_def enabledExporter_def)

subsection \<open>C9: a failed topology query\<close>

text \<open>
  Claim C9. For a request on a fresh response writer: if a client was obtained and
  \<^verbatim>\<open>newTopologyInfo\<close> fails, the status sent is 500, the content type sent is plain text,
  and the body starts with the message that ends in the error text (what the metrics
  handler writes afterwards follows it). The exporter after the request does not depend on
  the answer of \<^verbatim>\<open>newTopologyInfo\<close>. If the connect fails, the handler writes nothing
  itself: the response is what the metrics handler writes for a registry holding the
  general collector only (after the default gatherer, unless disabled).
\<close>

theorem topology_failure_500:
  "(\<forall>c ti err. fst (getClient w e) = Inr c \<and> newTopologyInfo w c = (ti, Some err) \<longrightarrow>
      status (fst (snd (Handler w e newResponseWriter))) = Some 500 \<and>
      sentContentType (fst (snd (Handler w e newResponseWriter))) =
        Some ''text/plain; charset=utf-8'' \<and>
      (\<exists>rest. body (fst (snd (Handler w e newResponseWriter))) =
         ''An error has occurred while getting topology info:'' @ [CHR 0x0A, CHR 0x0A] @ err @
         [CHR 0x0A] @ rest)) \<and>
   (\<forall>f. fst (Handler (w\<lparr>newTopologyInfo := f\<rparr>) e newResponseWriter) =
        fst (Handler w e newResponseWriter)) \<and>
   (\<forall>err. fst (getClient w e) = Inl err \<longrightarrow>
      fst (snd (Handler w e newResponseWriter)) =
        serveHTTP
          (promhttp_Handler w
             ((if \<not> DisableDefaultRegistry (opts e) then [DefaultGatherer] else []) @
              [RegistryGatherer [generalCollector None (Logger (opts e))]]))
          newResponseWriter)"
proof -
  have fail: "status (fst (snd (Handler w e newResponseWriter))) = Some 500 \<and>
      sentContentType (fst (snd (Handler w e newResponseWriter))) =
        Some ''text/plain; charset=utf-8'' \<and>
      (\<exists>rest. body (fst (snd (Handler w e newResponseWriter))) =
         ''An error has occurred while getting topology info:'' @ [CHR 0x0A, CHR 0x0A] @ err @
         [CHR 0x0A] @ rest)"
    if h: "fst (getClient w e) = Inr c \<and> newTopologyInfo w c = (ti, Some err)" for c ti err
  proof -
    let ?msg = "''An error has occurred while getting topology info:'' @ [CHR 0x0A, CHR 0x0A] @ err"
    let ?rw1 = "http_Error newResponseWriter ?msg 500"
    from h have t: "fst (snd (topologyStep w (clientOf (fst (getClient w e))) newResponseWriter)) = ?rw1"
      by (simp add: topologyStep_def clientOf_def)
    have s: "status ?rw1 = Some 500"
      and ct: "sentContentType ?rw1 = Some ''text/plain; charset=utf-8''"
      and b: "body ?rw1 = ?msg @ [CHR 0x0A]"
      using http_Error_fresh[of ?msg 500] by simp_all
    obtain ops where r: "fst (snd (Handler w e newResponseWriter)) = serveHTTP ops ?rw1"
      using Handler_response[of w e newResponseWriter] t by simp
    from serveHTTP_sent[OF s, of ops] ct b r show ?thesis
      by auto
  qed
  have down: "fst (snd (Handler w e newResponseWriter)) =
        serveHTTP
          (promhttp_Handler w
             ((if \<not> DisableDefaultRegistry (opts e) then [DefaultGatherer] else []) @
              [RegistryGatherer [generalCollector None (Logger (opts e))]]))
          newResponseWriter"
    if h: "fst (getClient w e) = Inl err" for err
    using h
    by (simp add: Handler_response Handler_opts clientOf_def topologyStep_def countStep_def
        makeRegistry_None getClient_keeps)
  from fail down Handler_state_topology_irrelevant show ?thesis
    by blast
qed

theorem topology_failure_500_witness:
  "status (fst (snd (Handler topologyFailsWorld enabledExporter newResponseWriter))) = Some 500 \<and>
   sentContentType (fst (snd (Handler topologyFailsWorld enabledExporter newResponseWriter))) =
     Some ''text/plain; charset=utf-8'' \<and>
   fst (Handler topologyFailsWorld enabledExporter newResponseWriter) =
     fst (Handler liveWorld enabledExporter newResponseWriter) \<and>
   status (fst (snd (Handler downWorld enabledExporter newResponseWriter))) = Some 200"
proof -
  have c: "fst (getClient topologyFailsWorld enabledExporter) = Inr (MongoClient 1)"
    by (simp add: getClient_def connect_def topologyFailsWorld_def liveWorld_def
        enabledExporter_def New_def new_Opts_def Let_def)
  have t: "newTopologyInfo topologyFailsWorld (MongoClient 1) = (None, Some ''not authorized'')"
    by (simp add: topologyFailsWorld_def liveWorld_def)
  have l: "topologyFailsWorld\<lparr>newTopologyInfo := newTopologyInfo liveWorld\<rparr> = liveWorld"
    by (simp add: topologyFailsWorld_def liveWorld_def)
  have d: "fst (getClient downWorld enabledExporter) =
      Inl ''cannot connect to MongoDB: server selection timeout''"
    by (simp add: getClient_def connect_def downWorld_def liveWorld_def
        enabledExporter_def New_def new_Opts_def Let_def)
  have s: "status (serveHTTP
          (promhttp_Handler downWorld
             ((if \<not> DisableDefaultRegistry (opts enabledExporter) then [DefaultGatherer] else []) @
              [RegistryGatherer [generalCollector None (Logger (opts enabledExporter))]]))
          newResponseWriter) = Some 200"
    by (simp add: serveHTTP_def downWorld_def liveWorld_def writeBody_def writeHeader_def
        newResponseWriter_def)
  note inst1 = topology_failure_500[of topologyFailsWorld enabledExporter]
  note inst2 = topology_failure_500[of downWorld enabledExporter]
  from inst1 c t have a1:
    "status (fst (snd (Handler topologyFailsWorld enabledExporter newResponseWriter))) = Some 500 \<and>
     sentContentType (fst (snd (Handler topologyFailsWorld enabledExporter newResponseWriter))) =
       Some ''text/plain; charset=utf-8''"
    by blast
  from inst1 have "fst (Handler (topologyFailsWorld\<lparr>newTopologyInfo := newTopologyInfo liveWorld\<rparr>)
       enabledExporter newResponseWriter) =
     fst (Handler topologyFailsWorld enabledExporter newResponseWriter)"
    by blast
  with l have a2: "fst (Handler topologyFailsWorld enabledExporter newResponseWriter) =
     fst (Handler liveWorld enabledExporter newResponseWriter)"
    by simp
  from inst2 d have "fst (snd (Handler downWorld enabledExporter newResponseWriter)) =
        serveHTTP
          (promhttp_Handler downWorld
             ((if \<not> DisableDefaultRegistry (opts enabledExporter) then [DefaultGatherer] else []) @
              [RegistryGatherer [generalCollector None (Logger (opts enabledExporter))]]))
          newResponseWriter"
    by blast
  with s have a3: "status (fst (snd (Handler downWorld enabledExporter newResponseWriter))) = Some 200"
    by simp
  from a1 a2 a3 show ?thesis by blast
qed

subsection \<open>C10: the constructor\<close>

text \<open>
  Claim C10. \<^verbatim>\<open>New\<close> is a total function that asks nothing of the outside. For nil
  options it returns the exporter of the zero-valued options with a new logger; options
  without a logger get a new one, others are kept as given; the exporter's logger is never
  nil, its count cache is \<open>-1\<close> and no client is stored. When the connect of the goroutine
  it starts fails, the goroutine logs the error and leaves the exporter as \<^verbatim>\<open>New\<close>
  returned it.
\<close>

theorem New_total:
  "New None =
     \<lparr>path = [], client = None, logger = Some LogrusNew,
      opts = new_Opts\<lparr>Logger := Some LogrusNew\<rparr>, webListenAddress = [],
      totalCollectionsCount = - 1\<rparr> \<and>
   opts (New (Some o1)) = (if Logger o1 = None then o1\<lparr>Logger := Some LogrusNew\<rparr> else o1) \<and>
   path (New (Some o1)) = Path o1 \<and>
   webListenAddress (New (Some o1)) = WebListenAddress o1 \<and>
   logger (New oo) = Logger (opts (New oo)) \<and>
   logger (New oo) \<noteq> None \<and>
   totalCollectionsCount (New oo) = - 1 \<and>
   client (New oo) = None \<and>
   (\<forall>err. fst (getClient w (New oo)) = Inl err \<longrightarrow>
      New_goroutine w (New oo) =
        (New oo,
         snd (snd (getClient w (New oo))) @ [LogErrorf (''Cannot connect to MongoDB: '' @ err)]))"
proof -
  have a: "New None =
     \<lparr>path = [], client = None, logger = Some LogrusNew,
      opts = new_Opts\<lparr>Logger := Some LogrusNew\<rparr>, webListenAddress = [],
      totalCollectionsCount = - 1\<rparr>"
    by (simp add: New_def new_Opts_def Let_def)
  have b: "opts (New (Some o1)) = (if Logger o1 = None then o1\<lparr>Logger := Some LogrusNew\<rparr> else o1)"
    "path (New (Some o1)) = Path o1"
    "webListenAddress (New (Some o1)) = WebListenAddress o1"
    by (simp_all add: New_def Let_def)
  have c: "logger (New oo) = Logger (opts (New oo))" "logger (New oo) \<noteq> None"
    "totalCollectionsCount (New oo) = - 1" "client (New oo) = None"
    by (cases oo; simp add: New_def Let_def new_Opts_def)+
  have unchanged: "fst (snd (getClient w e)) = e" if "fst (getClient w e) = Inl err" for e err
    using that by (auto simp add: getClient_def split: if_splits option.splits sum.splits prod.splits)
  have g: "New_goroutine w (New oo) =
        (New oo,
         snd (snd (getClient w (New oo))) @ [LogErrorf (''Cannot connect to MongoDB: '' @ err)])"
    if h: "fst (getClient w (New oo)) = Inl err" for err
    using h unchanged[OF h]
    by (simp add: New_goroutine_def case_prod_beta split: sum.splits)
  from a b c g show ?thesis by blast
qed

theorem New_total_witness:
  "logger (New None) = Some LogrusNew \<and>
   totalCollectionsCount (New None) = - 1 \<and>
   client (New None) = None \<and>
   New_goroutine downWorld (New None) =
     (New None,
      [CallConnect [] False, CallPing (MongoClient 1), CallDisconnect (MongoClient 1),
       LogErrorf (''Cannot connect to MongoDB: '' @
                  ''cannot connect to MongoDB: server selection timeout'')])"
proof -
  have d: "getClient downWorld (New None) =
      (Inl ''cannot connect to MongoDB: server selection timeout'', New None,
       [CallConnect [] False, CallPing (MongoClient 1), CallDisconnect (MongoClient 1)])"
    by (simp add: getClient_def connect_def downWorld_def liveWorld_def New_def new_Opts_def Let_def)
  from d have f: "fst (getClient downWorld (New None)) =
      Inl ''cannot connect to MongoDB: server selection timeout''"
    and ev: "snd (snd (getClient downWorld (New None))) =
      [CallConnect [] False, CallPing (MongoClient 1), CallDisconnect (MongoClient 1)]"
    by simp_all
  note inst = New_total[of new_Opts None downWorld]
  from inst have l: "logger (New None) = Some LogrusNew"
    and t: "totalCollectionsCount (New None) = - 1"
    and c: "client (New None) = None"
    by simp_all
  from inst f have "New_goroutine downWorld (New None) =
     (New None,
      snd (snd (getClient downWorld (New None))) @
      [LogErrorf (''Cannot connect to MongoDB: '' @
                  ''cannot connect to MongoDB: server selection timeout'')])"
    by blast
  then have g: "New_goroutine downWorld (New None) =
     (New None,
      [CallConnect [] False, CallPing (MongoClient 1), CallDisconnect (MongoClient 1),
       LogErrorf (''Cannot connect to MongoDB: '' @
                  ''cannot connect to MongoDB: server selection timeout'')])"
    by (simp only: ev append.simps)
  from l t c g show ?thesis by blast
qed

end
